theory Spec2Isabelle
  imports Main "HOL-Library.Word"
begin

section \<open>The JSON/TCP client of pyqode.core (\<^verbatim>\<open>pyqode/core/_internal/client.py\<close>)\<close>

text \<open>
  The module holds two classes: \<^verbatim>\<open>ServerProcess\<close>, a \<^verbatim>\<open>QProcess\<close> that logs what the
  server process prints, and \<^verbatim>\<open>JsonTcpClient\<close>, a \<^verbatim>\<open>QTcpSocket\<close> that starts the server,
  connects to it with a bounded number of retries, frames messages with a four byte
  length header and calls back the requester when a response arrives.

  The embedding is shallow. Each method is a function from the object's fields to the
  fields after the call, paired with the exception the call raised, if any. What a
  method does to the world outside the object (a log record, bytes written to the socket,
  a timer armed, a process started, a callback called) is appended to the field
  \<open>effects\<close>, in the order of the source's statements.
\<close>

subsection \<open>Values\<close>

type_synonym byte = "8 word"

text \<open>
  What \<^verbatim>\<open>json.loads\<close> returns: \<^verbatim>\<open>None\<close>, a bool, an int, a float (its 64 bits), a
  string, a list, or a dict with string keys (an association list read with \<open>map_of\<close>).
\<close>

datatype json =
    JNull
  | JBool bool
  | JInt int
  | JFloat "64 word"
  | JStr string
  | JArr "json list"
  | JObj "(string \<times> json) list"

text \<open>The exceptions the module raises or lets through.\<close>

datatype error =
    AssertionError       \<comment> \<open>\<^verbatim>\<open>assert os.path.exists(server_script)\<close>\<close>
  | AttributeError       \<comment> \<open>\<^verbatim>\<open>self._process.running\<close> when \<^verbatim>\<open>_process\<close> is \<^verbatim>\<open>None\<close>\<close>
  | NotConnectedError    \<comment> \<open>\<^verbatim>\<open>client.NotConnectedError\<close>\<close>
  | RuntimeError         \<comment> \<open>the retry budget is used up\<close>
  | TypeError            \<comment> \<open>an unhashable key tested against a dict\<close>
  | DecodeValueError     \<comment> \<open>\<^verbatim>\<open>ValueError\<close> of \<^verbatim>\<open>bytes.decode\<close> or \<^verbatim>\<open>json.loads\<close>\<close>
  | ReadValueError       \<comment> \<open>\<^verbatim>\<open>ValueError\<close> of \<^verbatim>\<open>QIODevice.read\<close> with a negative length\<close>
  | StructError          \<comment> \<open>\<^verbatim>\<open>struct.error\<close>: the length does not fit four bytes\<close>
  | KeyError             \<comment> \<open>a dict read at a key it does not have\<close>

text \<open>
  What the module takes from the interpreter, the standard library and the operating
  system. None of it is code of the repository, so it is a parameter of the model:
  the byte order of \<^verbatim>\<open>struct\<close>'s \<^verbatim>\<open>'=I'\<close>, the JSON codec (\<open>json_loads\<close> stands for
  \<^verbatim>\<open>json.loads(buf.decode('utf-8'))\<close> and is \<open>None\<close> where either call raises;
  \<open>json_dumps\<close> stands for \<^verbatim>\<open>json.dumps(obj).encode(encoding)\<close>), the UTF-8 decoder
  (to the list of code points, \<open>None\<close> where it raises),
  \<^verbatim>\<open>os.path.exists\<close>, \<^verbatim>\<open>sys.executable\<close> and the port the probe socket is given.
\<close>

record env =
  little_endian :: bool
  json_loads :: "byte list \<Rightarrow> json option"
  json_dumps :: "json \<Rightarrow> byte list"
  utf8_decode :: "byte list \<Rightarrow> nat list option"
  path_exists :: "string \<Rightarrow> bool"
  sys_executable :: string
  free_port :: int

subsection \<open>Effects\<close>

datatype level = DEBUG | INFO | ERROR

text \<open>A decoded text is the list of its code points.\<close>

type_synonym ustring = "nat list"

text \<open>The records of the logger \<^verbatim>\<open>pyqode-client\<close>, by the format string of the call.\<close>

datatype climsg =
    RunningWithPython                      \<comment> \<open>\<^verbatim>\<open>'running with python %d.%d.%d'\<close>\<close>
  | StartingServer string "string list"    \<comment> \<open>\<^verbatim>\<open>'starting server process: %s %s'\<close>\<close>
  | SendingRequest json                    \<comment> \<open>\<^verbatim>\<open>'sending request: %r'\<close>\<close>
  | Connecting int                         \<comment> \<open>\<^verbatim>\<open>'Connecting to 127.0.0.1:%d'\<close>\<close>
  | ConnectedTo                            \<comment> \<open>\<^verbatim>\<open>'connected to server: %s:%d'\<close>\<close>
  | SocketError int string                 \<comment> \<open>\<^verbatim>\<open>'socket error %d: %s'\<close>\<close>
  | DisconnectedFrom                       \<comment> \<open>\<^verbatim>\<open>'disconnected from server: %s:%d'\<close>\<close>
  | ResponseReceived json                  \<comment> \<open>\<^verbatim>\<open>'response received: %r'\<close>\<close>

datatype 'cb event =
    CliLog level climsg          \<comment> \<open>a record of the logger \<^verbatim>\<open>pyqode-client\<close>\<close>
  | SrvLog level ustring         \<comment> \<open>a record of the logger \<^verbatim>\<open>pyqode-server\<close>\<close>
  | SockWrite "byte list"        \<comment> \<open>\<^verbatim>\<open>self.write(...)\<close>\<close>
  | SockClose                    \<comment> \<open>\<^verbatim>\<open>QtNetwork.QTcpSocket.close(self)\<close>\<close>
  | ConnectToHost int            \<comment> \<open>\<^verbatim>\<open>self.connectToHost(address, self._port)\<close>\<close>
  | SingleShot int               \<comment> \<open>\<^verbatim>\<open>QtCore.QTimer.singleShot(ms, self._connect)\<close>\<close>
  | PickFreePort                 \<comment> \<open>the probe socket of \<^verbatim>\<open>_pick_free_port\<close>\<close>
  | ProcCreate                   \<comment> \<open>\<^verbatim>\<open>ServerProcess(self.parent())\<close>\<close>
  | ProcStart string "string list"   \<comment> \<open>\<^verbatim>\<open>self._process.start(program, pgm_args)\<close>\<close>
  | ProcTerminate                \<comment> \<open>\<^verbatim>\<open>QProcess.terminate\<close>\<close>
  | ProcWaitForFinished          \<comment> \<open>\<^verbatim>\<open>self._process.waitForFinished()\<close>\<close>
  | Callback 'cb json json       \<comment> \<open>\<^verbatim>\<open>callback(status, results)\<close>\<close>

subsection \<open>The objects\<close>

text \<open>Of a \<^verbatim>\<open>ServerProcess\<close> the client reads and writes the flag \<^verbatim>\<open>running\<close>.\<close>

record server_process =
  running :: bool

text \<open>
  The fields of \<^verbatim>\<open>JsonTcpClient.__init__\<close>, under their names without the leading
  underscore. Two more fields stand for state that Qt keeps for the object: \<open>inbuf\<close> is
  the socket's read buffer (the bytes \<^verbatim>\<open>bytesAvailable()\<close> counts and \<^verbatim>\<open>read\<close> takes
  from) and \<open>timers\<close> counts the single-shot timers armed and not yet fired. A
  callback is a value of the type \<open>'cb\<close>: the model records that it is called and with
  what, not what it does.
\<close>

record 'cb client =
  header_complete :: bool
  header_buf :: "byte list"
  to_read :: int
  data_buf :: "byte list"
  callbacks :: "string \<rightharpoonup> 'cb"
  is_connected :: bool
  process :: "server_process option"
  connection_attempts :: int
  port :: int
  inbuf :: "byte list"
  timers :: nat
  effects :: "'cb event list"

definition init_client :: "'cb client" where
  "init_client =
     \<lparr> header_complete = False, header_buf = [], to_read = 0, data_buf = [],
       callbacks = Map.empty, is_connected = False, process = None,
       connection_attempts = 0, port = - 1, inbuf = [], timers = 0, effects = [] \<rparr>"

definition emit :: "'cb event \<Rightarrow> 'cb client \<Rightarrow> 'cb client" where
  "emit e s = s\<lparr>effects := effects s @ [e]\<rparr>"

definition TIMEOUT_BEFORE_RETRY :: int where
  "TIMEOUT_BEFORE_RETRY = 100"

definition MAX_RETRY :: int where
  "MAX_RETRY = 100"

subsection \<open>Framing: \<^verbatim>\<open>struct.pack\<close>, \<^verbatim>\<open>struct.unpack\<close> and the socket's \<^verbatim>\<open>read\<close>\<close>

text \<open>
  \<^verbatim>\<open>struct.unpack('=I', buf)[0]\<close> on four bytes: an unsigned integer in the machine's
  byte order. \<^verbatim>\<open>struct.pack('=I', n)\<close> is its inverse below \<open>2 ^ 32\<close> and raises
  \<^verbatim>\<open>struct.error\<close> from there on.
\<close>

definition unpack_I :: "bool \<Rightarrow> byte list \<Rightarrow> int" where
  "unpack_I le bs = int (foldr (\<lambda>b n. unat b + 256 * n) (if le then bs else rev bs) 0)"

definition pack_I :: "bool \<Rightarrow> nat \<Rightarrow> byte list" where
  "pack_I le n =
     (let bs = map (\<lambda>i. word_of_nat (n div 256 ^ i)) [0, 1, 2, 3 :: nat]
      in if le then bs else rev bs)"

text \<open>
  \<^verbatim>\<open>self.read(maxlen)\<close>: PyQt refuses a negative length with \<^verbatim>\<open>ValueError\<close>; otherwise
  the call takes at most \<open>maxlen\<close> bytes from the front of the buffer, fewer when fewer
  are there.
\<close>

definition sock_read :: "int \<Rightarrow> 'cb client \<Rightarrow> error + (byte list \<times> 'cb client)" where
  "sock_read maxlen s =
     (if maxlen < 0 then Inl ReadValueError
      else Inr (take (nat maxlen) (inbuf s), s\<lparr>inbuf := drop (nat maxlen) (inbuf s)\<rparr>))"

subsection \<open>Dispatching a decoded message (\<^verbatim>\<open>_on_ready_read\<close>, the \<^verbatim>\<open>try\<close> statement)\<close>

text \<open>
  \<^verbatim>\<open>obj[key]\<close> for a string key: the value of a dict that has the key; \<^verbatim>\<open>KeyError\<close> for a
  dict without it and \<^verbatim>\<open>TypeError\<close> for every other object, both caught by the source's
  \<^verbatim>\<open>except (TypeError, KeyError)\<close> and so both \<open>None\<close> here.
\<close>

fun getitem :: "json \<Rightarrow> string \<Rightarrow> json option" where
  "getitem (JObj kvs) k = map_of kvs k"
| "getitem _ k = None"

text \<open>A list or a dict has no hash: \<^verbatim>\<open>x in d\<close> raises \<^verbatim>\<open>TypeError\<close> for it.\<close>

fun hashable :: "json \<Rightarrow> bool" where
  "hashable (JArr _) = False"
| "hashable (JObj _) = False"
| "hashable _ = True"

text \<open>
  The keys of \<^verbatim>\<open>_callbacks\<close> are the strings \<^verbatim>\<open>str(uuid.uuid4())\<close>, so only a string can
  be found among them.
\<close>

fun key_of :: "json \<Rightarrow> string option" where
  "key_of (JStr k) = Some k"
| "key_of _ = None"

definition dispatch :: "json \<Rightarrow> 'cb client \<Rightarrow> error option \<times> 'cb client" where
  "dispatch obj s =
     (case (getitem obj ''request_id'', getitem obj ''results'', getitem obj ''status'') of
        (Some request_id, Some results, Some status) \<Rightarrow>
          if \<not> hashable request_id then (Some TypeError, s)
          else (case key_of request_id of
                  None \<Rightarrow> (None, s)
                | Some k \<Rightarrow>
                    (case callbacks s k of
                       None \<Rightarrow> (None, s)
                     | Some callback \<Rightarrow>
                         (None, emit (Callback callback status results)
                                  (s\<lparr>callbacks := (callbacks s)(k := None)\<rparr>))))
      | _ \<Rightarrow> (None, s))"

subsection \<open>\<^verbatim>\<open>JsonTcpClient._on_ready_read\<close>\<close>

text \<open>
  One turn of the \<^verbatim>\<open>while\<close> loop's body. In the header branch the source reads up to
  four bytes whatever \<open>header_buf\<close> already holds, and completes the header only when
  the buffer is then exactly four bytes long. In the payload branch it reads up to
  \<open>to_read\<close> bytes and then subtracts the length of the whole of \<open>data_buf\<close> from
  \<open>to_read\<close>. An exception leaves the fields as they are at the raising statement.
\<close>

definition read_header :: "env \<Rightarrow> 'cb client \<Rightarrow> error option \<times> 'cb client" where
  "read_header E s =
     (case sock_read 4 s of
        Inl e \<Rightarrow> (Some e, s)
      | Inr (chunk, s1) \<Rightarrow>
          let s2 = s1\<lparr>header_buf := header_buf s1 @ chunk\<rparr>
          in if length (header_buf s2) = 4
             then (None, s2\<lparr>header_complete := True,
                             to_read := unpack_I (little_endian E) (header_buf s2),
                             header_buf := []\<rparr>)
             else (None, s2))"

definition read_payload :: "env \<Rightarrow> 'cb client \<Rightarrow> error option \<times> 'cb client" where
  "read_payload E s =
     (case sock_read (to_read s) s of
        Inl e \<Rightarrow> (Some e, s)
      | Inr (chunk, s1) \<Rightarrow>
          let s2 = s1\<lparr>data_buf := data_buf s1 @ chunk\<rparr>;
              s3 = s2\<lparr>to_read := to_read s2 - int (length (data_buf s2))\<rparr>
          in if to_read s3 = 0
             then (case json_loads E (data_buf s3) of
                     None \<Rightarrow> (Some DecodeValueError, s3)
                   | Some obj \<Rightarrow>
                       (case dispatch obj (emit (CliLog DEBUG (ResponseReceived obj)) s3) of
                          (Some e, s4) \<Rightarrow> (Some e, s4)
                        | (None, s4) \<Rightarrow>
                            (None, s4\<lparr>header_complete := False, data_buf := []\<rparr>)))
             else (None, s3))"

definition read_step :: "env \<Rightarrow> 'cb client \<Rightarrow> error option \<times> 'cb client" where
  "read_step E s = (if \<not> header_complete s then read_header E s else read_payload E s)"

text \<open>
  The loop's variant: every turn that does not raise either takes a byte from the
  socket, or leaves payload mode with \<open>to_read = 0\<close>.
\<close>

definition progress :: "'cb client \<Rightarrow> nat" where
  "progress s =
     3 * length (inbuf s) +
     (if header_complete s then (if to_read s = 0 then 2 else 0) else 1)"

lemma dispatch_frame:
  "dispatch obj s = (r, s') \<Longrightarrow>
     inbuf s' = inbuf s \<and> header_complete s' = header_complete s \<and>
     to_read s' = to_read s \<and> data_buf s' = data_buf s \<and> header_buf s' = header_buf s"
  by (auto simp: dispatch_def emit_def split: option.splits if_splits)

lemma read_header_progress:
  assumes "inbuf s \<noteq> []" "\<not> header_complete s" "read_header E s = (None, s')"
  shows "progress s' < progress s"
proof -
  have "length (drop 4 (inbuf s)) < length (inbuf s)"
    using assms(1) by (cases "inbuf s") auto
  then show ?thesis
    using assms(2,3)
    by (auto simp: read_header_def sock_read_def progress_def Let_def split: if_splits)
qed

lemma read_payload_progress:
  assumes "inbuf s \<noteq> []" "header_complete s" "read_payload E s = (None, s')"
  shows "progress s' < progress s"
proof (cases "to_read s > 0")
  case True
  then have "length (drop (nat (to_read s)) (inbuf s)) < length (inbuf s)"
    using assms(1) by (cases "inbuf s") auto
  then show ?thesis
    using assms(2,3) True
    by (auto simp: read_payload_def sock_read_def progress_def Let_def emit_def
             split: if_splits option.splits prod.splits dest!: dispatch_frame)
next
  case False
  then show ?thesis
    using assms(2,3)
    by (auto simp: read_payload_def sock_read_def progress_def Let_def emit_def
             split: if_splits option.splits prod.splits dest!: dispatch_frame)
qed

lemma read_step_progress:
  "inbuf s \<noteq> [] \<Longrightarrow> read_step E s = (None, s') \<Longrightarrow> progress s' < progress s"
  by (auto simp: read_step_def intro: read_header_progress read_payload_progress
           split: if_splits)

function on_ready_read :: "env \<Rightarrow> 'cb client \<Rightarrow> error option \<times> 'cb client" where
  "on_ready_read E s =
     (if inbuf s = [] then (None, s)
      else (case read_step E s of
              (Some e, s') \<Rightarrow> (Some e, s')
            | (None, s') \<Rightarrow> on_ready_read E s'))"
  by pat_completeness auto
termination
  by (relation "measure (\<lambda>(E, s). progress s)") (auto intro: read_step_progress)

declare on_ready_read.simps [simp del]

lemma on_ready_read_empty: "inbuf s = [] \<Longrightarrow> on_ready_read E s = (None, s)"
  by (simp add: on_ready_read.simps)

lemma on_ready_read_more:
  "inbuf s \<noteq> [] \<Longrightarrow>
     on_ready_read E s =
       (case read_step E s of
          (Some e, s') \<Rightarrow> (Some e, s')
        | (None, s') \<Rightarrow> on_ready_read E s')"
  by (subst on_ready_read.simps) simp

text \<open>
  The socket receives a chunk and emits \<^verbatim>\<open>readyRead\<close>, which runs the slot. \<open>deliver\<close>
  does so for each chunk of a list in turn and keeps what each run of the slot raised: an
  exception that leaves a slot is printed by PyQt and the event loop goes on.
\<close>

definition data_arrives :: "env \<Rightarrow> byte list \<Rightarrow> 'cb client \<Rightarrow> error option \<times> 'cb client" where
  "data_arrives E chunk s = on_ready_read E (s\<lparr>inbuf := inbuf s @ chunk\<rparr>)"

fun deliver :: "env \<Rightarrow> byte list list \<Rightarrow> 'cb client \<Rightarrow> error option list \<times> 'cb client" where
  "deliver E [] s = ([], s)"
| "deliver E (chunk # chunks) s =
     (case data_arrives E chunk s of
        (r, s1) \<Rightarrow> (case deliver E chunks s1 of (rs, s2) \<Rightarrow> (r # rs, s2)))"

definition bytewise :: "byte list \<Rightarrow> byte list list" where
  "bytewise bs = map (\<lambda>b. [b]) bs"

text \<open>The messages decoded so far, as the client's log shows them, and the callbacks called.\<close>

fun decoded :: "'cb event list \<Rightarrow> json list" where
  "decoded [] = []"
| "decoded (CliLog lvl (ResponseReceived obj) # es) = obj # decoded es"
| "decoded (e # es) = decoded es"

fun called :: "'cb event list \<Rightarrow> ('cb \<times> json \<times> json) list" where
  "called [] = []"
| "called (Callback cb status results # es) = (cb, status, results) # called es"
| "called (e # es) = called es"

subsection \<open>\<^verbatim>\<open>JsonTcpClient.send\<close> and \<^verbatim>\<open>request_work\<close>\<close>

definition send :: "env \<Rightarrow> json \<Rightarrow> 'cb client \<Rightarrow> error option \<times> 'cb client" where
  "send E obj s =
     (let s1 = emit (CliLog DEBUG (SendingRequest obj)) s;
          msg = json_dumps E obj
      in if length msg < 2 ^ 32
         then (None, emit (SockWrite msg)
                       (emit (SockWrite (pack_I (little_endian E) (length msg))) s1))
         else (Some StructError, s1))"

text \<open>
  \<open>worker_module\<close> and \<open>worker_name\<close> are \<^verbatim>\<open>__module__\<close> and \<^verbatim>\<open>__name__\<close> of the worker,
  \<open>on_receive\<close> is \<open>None\<close> for Python's \<^verbatim>\<open>None\<close>, and \<open>request_id\<close> is the string that
  \<^verbatim>\<open>str(uuid.uuid4())\<close> returns in this call.
\<close>

definition request_work ::
  "env \<Rightarrow> string \<Rightarrow> string \<Rightarrow> json \<Rightarrow> 'cb option \<Rightarrow> string \<Rightarrow> 'cb client
     \<Rightarrow> error option \<times> 'cb client" where
  "request_work E worker_module worker_name args on_receive request_id s =
     (if (case process s of None \<Rightarrow> True | Some p \<Rightarrow> \<not> running p) \<or> \<not> is_connected s
      then (Some NotConnectedError, s)
      else
        let classname = worker_module @ ''.'' @ worker_name;
            s1 = (case on_receive of
                    None \<Rightarrow> s
                  | Some cb \<Rightarrow> s\<lparr>callbacks := (callbacks s)(request_id \<mapsto> cb)\<rparr>)
        in send E (JObj [(''request_id'', JStr request_id),
                         (''worker'', JStr classname),
                         (''data'', args)]) s1)"

subsection \<open>\<^verbatim>\<open>JsonTcpClient.close\<close> and \<^verbatim>\<open>_terminate_server_process\<close>\<close>

text \<open>\<^verbatim>\<open>ServerProcess.terminate\<close> clears \<^verbatim>\<open>running\<close> and calls \<^verbatim>\<open>QProcess.terminate\<close>.\<close>

definition terminate_server_process :: "'cb client \<Rightarrow> 'cb client" where
  "terminate_server_process s =
     (case process s of
        None \<Rightarrow> s
      | Some p \<Rightarrow>
          if running p
          then emit ProcWaitForFinished
                 (emit ProcTerminate (s\<lparr>process := Some (p\<lparr>running := False\<rparr>)\<rparr>))
          else s)"

text \<open>
  \<^verbatim>\<open>self.is_connected and self._process.running\<close> reads \<^verbatim>\<open>running\<close> only when
  \<^verbatim>\<open>is_connected\<close> is true, and raises \<^verbatim>\<open>AttributeError\<close> there when \<^verbatim>\<open>_process\<close> is
  \<^verbatim>\<open>None\<close>.

  \<^verbatim>\<open>QTcpSocket.close\<close> on a connected socket that has nothing left to write emits
  \<^verbatim>\<open>disconnected\<close> before it returns, which runs the slot \<^verbatim>\<open>_on_disconnected\<close> inside
  \<^verbatim>\<open>close()\<close>. After the shutdown message has been written the socket first has to send
  it, and the signal comes later, as an event of its own.
\<close>

definition on_disconnected :: "'cb client \<Rightarrow> 'cb client" where
  "on_disconnected s = (emit (CliLog DEBUG DisconnectedFrom) s)\<lparr>is_connected := False\<rparr>"

definition close :: "env \<Rightarrow> 'cb client \<Rightarrow> error option \<times> 'cb client" where
  "close E s =
     (if is_connected s \<and> process s = None then (Some AttributeError, s)
      else
        let shutdown = (is_connected s \<and>
                        (case process s of None \<Rightarrow> False | Some p \<Rightarrow> running p))
        in case (if shutdown then send E (JStr ''shutdown'') s else (None, s)) of
             (Some e, s1) \<Rightarrow> (Some e, s1)
           | (None, s1) \<Rightarrow>
               let s2 = emit SockClose s1;
                   s3 = (if is_connected s \<and> \<not> shutdown then on_disconnected s2 else s2)
               in (None, (terminate_server_process s3)\<lparr>is_connected := False\<rparr>))"

subsection \<open>\<^verbatim>\<open>JsonTcpClient.start\<close>\<close>

text \<open>\<^verbatim>\<open>str(n)\<close> for an integer and \<^verbatim>\<open>s.endswith(suffix)\<close>.\<close>

fun str_nat :: "nat \<Rightarrow> string" where
  "str_nat n =
     (if n < 10 then [char_of (48 + n)]
      else str_nat (n div 10) @ [char_of (48 + n mod 10)])"

declare str_nat.simps [simp del]

definition str_int :: "int \<Rightarrow> string" where
  "str_int i = (if i < 0 then CHR ''-'' # str_nat (nat (- i)) else str_nat (nat i))"

definition endswith :: "string \<Rightarrow> string \<Rightarrow> bool" where
  "endswith s suffix =
     (length suffix \<le> length s \<and> drop (length s - length suffix) s = suffix)"

text \<open>
  \<open>interpreter\<close> and \<open>args\<close> are \<open>None\<close> for Python's \<^verbatim>\<open>None\<close>. The \<^verbatim>\<open>assert\<close> is the
  statement of an interpreter that runs assertions (\<^verbatim>\<open>__debug__\<close>, the default).
\<close>

definition start ::
  "env \<Rightarrow> string \<Rightarrow> string option \<Rightarrow> string list option \<Rightarrow> 'cb client
     \<Rightarrow> error option \<times> 'cb client" where
  "start E server_script interpreter args s =
     (let s1 = emit (CliLog DEBUG RunningWithPython) s
      in if \<not> path_exists E server_script then (Some AssertionError, s1)
         else
           let interp = (case interpreter of
                           None \<Rightarrow> sys_executable E
                         | Some i \<Rightarrow> if i = [] then sys_executable E else i);
               s2 = emit ProcCreate (s1\<lparr>process := Some \<lparr>running = False\<rparr>\<rparr>);
               s3 = (emit PickFreePort s2)\<lparr>port := free_port E\<rparr>;
               program = (if endswith server_script ''.exe'' then server_script else interp);
               pgm_args = (if endswith server_script ''.exe'' then [str_int (port s3)]
                           else [server_script, str_int (port s3)]);
               pgm_args2 = (case args of None \<Rightarrow> pgm_args | Some a \<Rightarrow> pgm_args @ a);
               s4 = emit (ProcStart program pgm_args2) s3
           in (None, emit (CliLog DEBUG (StartingServer program pgm_args2)) s4))"

subsection \<open>Connecting: \<^verbatim>\<open>_on_process_started\<close>, \<^verbatim>\<open>_connect\<close>, \<^verbatim>\<open>_on_connected\<close>, \<^verbatim>\<open>_on_error\<close>\<close>

definition SOCKET_ERROR_STRINGS :: "(int \<times> string) list" where
  "SOCKET_ERROR_STRINGS =
     [(0, ''the connection was refused by the peer (or timed out).''),
      (1, ''the remote host closed the connection.''),
      (2, ''the host address was not found.''),
      (3, ''the socket operation failed because the application lacked the required privileges.''),
      (4, ''the local system ran out of resources (e.g., too many sockets).''),
      (5, ''the socket operation timed out.''),
      (6, ''the datagram was larger than the operating system's limit (which can be as low as 8192 bytes).''),
      (7, ''an error occurred with the network (e.g., the network cable was accidentally plugged out).''),
      (- 1, ''an unidentified error occurred.'')]"

text \<open>\<^verbatim>\<open>QtNetwork.QAbstractSocket.ConnectionRefusedError\<close>.\<close>

definition ConnectionRefusedError :: int where
  "ConnectionRefusedError = 0"

text \<open>\<^verbatim>\<open>QtCore.QTimer.singleShot(ms, self._connect)\<close>: one more timer is armed.\<close>

definition single_shot :: "int \<Rightarrow> 'cb client \<Rightarrow> 'cb client" where
  "single_shot ms s = emit (SingleShot ms) (s\<lparr>timers := timers s + 1\<rparr>)"

definition on_process_started :: "'cb client \<Rightarrow> 'cb client" where
  "on_process_started s = single_shot TIMEOUT_BEFORE_RETRY s"

definition connect :: "'cb client \<Rightarrow> 'cb client" where
  "connect s =
     (let s1 = emit (CliLog DEBUG (Connecting (port s))) s;
          s2 = s1\<lparr>connection_attempts := connection_attempts s1 + 1\<rparr>
      in emit (ConnectToHost (port s2)) s2)"

definition on_connected :: "'cb client \<Rightarrow> 'cb client" where
  "on_connected s = (emit (CliLog DEBUG ConnectedTo) s)\<lparr>is_connected := True\<rparr>"

definition on_error :: "int \<Rightarrow> 'cb client \<Rightarrow> error option \<times> 'cb client" where
  "on_error socket_error s =
     (let code = (if map_of SOCKET_ERROR_STRINGS socket_error = None then - 1
                  else socket_error)
      in case map_of SOCKET_ERROR_STRINGS code of
           None \<Rightarrow> (Some KeyError, s)
         | Some msg \<Rightarrow>
             let s1 = emit (CliLog ERROR (SocketError code msg)) s
             in if code = ConnectionRefusedError
                then (if connection_attempts s1 < MAX_RETRY
                      then (None, single_shot TIMEOUT_BEFORE_RETRY s1)
                      else (Some RuntimeError, s1))
                else (None, s1))"

text \<open>
  The slots that Qt's \<^verbatim>\<open>started\<close> and \<^verbatim>\<open>finished\<close> signals run on the \<^verbatim>\<open>ServerProcess\<close>
  itself set and clear its flag.
\<close>

definition process_started :: "server_process \<Rightarrow> server_process" where
  "process_started p = p\<lparr>running := True\<rparr>"

definition process_finished :: "server_process \<Rightarrow> server_process" where
  "process_finished p = p\<lparr>running := False\<rparr>"

text \<open>
  Persistent refusal: whenever a timer is armed it fires and runs \<^verbatim>\<open>_connect\<close>, and the
  peer refuses, so Qt's \<^verbatim>\<open>error\<close> signal runs \<^verbatim>\<open>_on_error\<close> with
  \<^verbatim>\<open>ConnectionRefusedError\<close>. The loop goes on for as long as a timer is armed and keeps
  the exceptions that left the slot.
\<close>

definition timer_fires :: "'cb client \<Rightarrow> 'cb client" where
  "timer_fires s = connect (s\<lparr>timers := timers s - 1\<rparr>)"

lemma on_error_refused:
  "on_error ConnectionRefusedError s =
     (if connection_attempts s < MAX_RETRY
      then (None, single_shot TIMEOUT_BEFORE_RETRY
                    (emit (CliLog ERROR (SocketError 0
                       ''the connection was refused by the peer (or timed out).'')) s))
      else (Some RuntimeError,
            emit (CliLog ERROR (SocketError 0
              ''the connection was refused by the peer (or timed out).'')) s))"
  by (simp add: on_error_def ConnectionRefusedError_def SOCKET_ERROR_STRINGS_def emit_def)

lemma refused_round_fields:
  "connection_attempts (timer_fires s) = connection_attempts s + 1"
  "timers (timer_fires s) = timers s - 1"
  by (simp_all add: timer_fires_def connect_def emit_def Let_def)

function refused_loop :: "error list \<Rightarrow> 'cb client \<Rightarrow> error list \<times> 'cb client" where
  "refused_loop raised s =
     (if timers s = 0 then (raised, s)
      else (case on_error ConnectionRefusedError (timer_fires s) of
              (None, s') \<Rightarrow> refused_loop raised s'
            | (Some e, s') \<Rightarrow> refused_loop (raised @ [e]) s'))"
  by pat_completeness auto
termination
  by (relation "measure (\<lambda>(raised, s). timers s + nat (MAX_RETRY - connection_attempts s))")
     (auto simp: on_error_refused refused_round_fields single_shot_def emit_def MAX_RETRY_def
           split: if_splits)

declare refused_loop.simps [simp del]

subsection \<open>\<^verbatim>\<open>ServerProcess._on_process_stdout_ready\<close> and \<^verbatim>\<open>_on_process_stderr_ready\<close>\<close>

text \<open>
  \<^verbatim>\<open>output.rfind(c)\<close>: the highest index of \<open>c\<close>, or \<open>-1\<close>. \<^verbatim>\<open>output[:k]\<close>: a negative
  \<open>k\<close> counts from the end, and the bound is clipped to the text.
\<close>

definition rfind :: "'a \<Rightarrow> 'a list \<Rightarrow> int" where
  "rfind c xs =
     (if c \<in> set xs
      then int (length xs) - 1 - int (length (takeWhile (\<lambda>x. x \<noteq> c) (rev xs)))
      else - 1)"

definition slice_to :: "'a list \<Rightarrow> int \<Rightarrow> 'a list" where
  "slice_to xs k =
     (let n = int (length xs);
          j = (if k < 0 then max 0 (n + k) else min k n)
      in take (nat j) xs)"

text \<open>
  \<^verbatim>\<open>str.splitlines()\<close>: the text is cut at every line boundary (\<^verbatim>\<open>\n\<close>, \<^verbatim>\<open>\r\<close>, \<^verbatim>\<open>\r\n\<close>,
  \<^verbatim>\<open>\v\<close>, \<^verbatim>\<open>\f\<close>, \<^verbatim>\<open>\x1c\<close>, \<^verbatim>\<open>\x1d\<close>, \<^verbatim>\<open>\x1e\<close>, \<^verbatim>\<open>\x85\<close>, U+2028, U+2029), the
  boundaries are dropped, and what follows the last boundary is a line when it is not
  empty.
\<close>

definition LF :: nat where
  "LF = 10"

definition CR :: nat where
  "CR = 13"

definition is_linebreak :: "nat \<Rightarrow> bool" where
  "is_linebreak c = (c \<in> set [10, 13, 11, 12, 28, 29, 30, 133, 8232, 8233])"

fun splitlines_from :: "ustring \<Rightarrow> ustring \<Rightarrow> ustring list" where
  "splitlines_from line [] = (if line = [] then [] else [line])"
| "splitlines_from line [c] = (if is_linebreak c then [line] else [line @ [c]])"
| "splitlines_from line (c # d # cs) =
     (if c = CR \<and> d = LF then line # splitlines_from [] cs
      else if is_linebreak c then line # splitlines_from [] (d # cs)
      else splitlines_from (line @ [c]) (d # cs))"

definition splitlines :: "ustring \<Rightarrow> ustring list" where
  "splitlines output = splitlines_from [] output"

text \<open>
  \<open>chunk\<close> is what \<^verbatim>\<open>readAllStandardOutput()\<close> (\<^verbatim>\<open>readAllStandardError()\<close>) returns in this
  call: all that the process wrote since the last call. The handlers keep nothing from
  one call to the next.
\<close>

definition on_process_stdout_ready :: "env \<Rightarrow> byte list \<Rightarrow> error + 'cb event list" where
  "on_process_stdout_ready E chunk =
     (case utf8_decode E chunk of
        None \<Rightarrow> Inl DecodeValueError
      | Some output \<Rightarrow>
          let output2 = slice_to output (rfind LF output)
          in Inr (map (SrvLog DEBUG) (splitlines output2)))"

definition on_process_stderr_ready :: "env \<Rightarrow> byte list \<Rightarrow> error + 'cb event list" where
  "on_process_stderr_ready E chunk =
     (case utf8_decode E chunk of
        None \<Rightarrow> Inl DecodeValueError
      | Some output \<Rightarrow>
          let output2 = slice_to output (rfind LF output)
          in Inr (map (SrvLog ERROR) (splitlines output2)))"

section \<open>A concrete environment and concrete clients\<close>

text \<open>
  The examples below run the model on a little-endian machine. \<open>demo_loads\<close> is
  \<^verbatim>\<open>json.loads\<close> on the payloads the examples receive (each other payload they receive
  is not a JSON text, so \<open>None\<close> is what the decoder answers there as well),
  \<open>demo_dumps\<close> is \<^verbatim>\<open>json.dumps\<close> on the two objects the examples send, and \<open>ascii_decode\<close> is the UTF-8 decoder on seven-bit input.
\<close>

definition ascii :: "string \<Rightarrow> byte list" where
  "ascii cs = map of_char cs"

definition ascii_decode :: "byte list \<Rightarrow> ustring option" where
  "ascii_decode bs = (if list_all (\<lambda>b. b < 128) bs then Some (map unat bs) else None)"

definition response_r1 :: json where
  "response_r1 =
     JObj [(''request_id'', JStr ''r1''), (''results'', JInt 1), (''status'', JBool True)]"

definition payload_r1 :: "byte list" where
  \<open>payload_r1 = ascii ''{"request_id": "r1", "results": 1, "status": true}''\<close>

definition demo_loads :: "byte list \<Rightarrow> json option" where
  "demo_loads =
     map_of [(payload_r1, response_r1), (ascii ''12'', JInt 12), (ascii ''123'', JInt 123)]"

definition request_r1 :: json where
  "request_r1 =
     JObj [(''request_id'', JStr ''r1''), (''worker'', JStr ''pyqode.core.workers.echo''),
           (''data'', JNull)]"

definition demo_dumps :: "json \<Rightarrow> byte list" where
  \<open>demo_dumps obj =
     (if obj = JStr ''shutdown'' then ascii ''"shutdown"''
      else if obj = request_r1
      then ascii ''{"request_id": "r1", "worker": "pyqode.core.workers.echo", "data": null}''
      else [])\<close>

definition demo_env :: env where
  "demo_env =
     \<lparr> little_endian = True, json_loads = demo_loads, json_dumps = demo_dumps,
       utf8_decode = ascii_decode, path_exists = (\<lambda>p. p = ''server.py''),
       sys_executable = ''python'', free_port = 5000 \<rparr>"

text \<open>
  A client whose server process has started and whose socket is connected, and the same
  client after a request with the identifier \<open>r1\<close> and the callback \<open>7\<close>.
\<close>

definition running_client :: "nat client" where
  "running_client =
     on_connected (init_client\<lparr>process := Some (process_started \<lparr>running = False\<rparr>)\<rparr>)"

definition pending_client :: "nat client" where
  "pending_client =
     snd (request_work demo_env ''pyqode.core.workers'' ''echo'' JNull (Some 7) ''r1''
            running_client)"

lemmas demo =
  demo_env_def demo_loads_def demo_dumps_def ascii_def ascii_decode_def payload_r1_def
  response_r1_def request_r1_def running_client_def pending_client_def init_client_def
  on_connected_def process_started_def emit_def

lemma pending_client_fields:
  "callbacks pending_client ''r1'' = Some 7"
  "callbacks pending_client ''r2'' = None"
  "effects pending_client \<noteq> []"
  "called (effects pending_client) = []"
  "decoded (effects pending_client) = []"
  by (simp_all add: demo request_work_def send_def Let_def)

text \<open>
  What one refused attempt leaves in the effects: the log record and the call of
  \<^verbatim>\<open>_connect\<close>, then the log record of \<^verbatim>\<open>_on_error\<close>. \<open>connects\<close> counts the calls of
  \<^verbatim>\<open>connectToHost\<close>.
\<close>

definition refused_msg :: string where
  "refused_msg = ''the connection was refused by the peer (or timed out).''"

definition refused_round :: "int \<Rightarrow> 'cb event list" where
  "refused_round p =
     [CliLog DEBUG (Connecting p), ConnectToHost p, CliLog ERROR (SocketError 0 refused_msg)]"

fun connects :: "'cb event list \<Rightarrow> nat" where
  "connects [] = 0"
| "connects (ConnectToHost p # es) = Suc (connects es)"
| "connects (e # es) = connects es"

text \<open>A client on which \<^verbatim>\<open>start\<close> has just run with an existing script.\<close>

definition started_client :: "nat client" where
  "started_client = snd (start demo_env ''server.py'' None None init_client)"

lemma started_client_fields:
  "connection_attempts started_client = 0" "timers started_client = 0"
  "port started_client = 5000" "connects (effects started_client) = 0"
  "process started_client = Some \<lparr>running = False\<rparr>"
  by (simp_all add: started_client_def start_def demo_env_def init_client_def emit_def Let_def)

lemma request_work_demo:
  "request_work demo_env ''pyqode.core.workers'' ''echo'' JNull (Some 7) ''r1''
     running_client = (None, pending_client)"
  by (simp add: demo request_work_def send_def Let_def)

text \<open>
  Three frames as the server would write them on this machine: the response to the
  request \<open>r1\<close>, the number 123, and a frame whose payload is not a JSON text.
\<close>

definition frame_r1 :: "byte list" where
  "frame_r1 = [50, 0, 0, 0] @ payload_r1"

definition frame_123 :: "byte list" where
  "frame_123 = [3, 0, 0, 0] @ ascii ''123''"

definition frame_bad :: "byte list" where
  "frame_bad = [2, 0, 0, 0] @ ascii ''[1''"

lemmas run =
  deliver.simps data_arrives_def on_ready_read_empty on_ready_read_more read_step_def
  read_header_def read_payload_def sock_read_def unpack_I_def dispatch_def bytewise_def
  request_work_def send_def Let_def frame_r1_def frame_123_def frame_bad_def

text \<open>
  A decoder that is in payload mode with a negative \<open>to_read\<close>, or with \<open>to_read = 0\<close> and
  a buffer that does not decode.
\<close>

definition stuck :: "env \<Rightarrow> 'cb client \<Rightarrow> bool" where
  "stuck E t =
     (header_complete t \<and>
      (to_read t < 0 \<or> (to_read t = 0 \<and> json_loads E (data_buf t) = None)))"

section \<open>Properties\<close>

lemma called_append: "called (xs @ ys) = called xs @ called ys"
  by (induction xs rule: called.induct) auto

lemma decoded_append: "decoded (xs @ ys) = decoded xs @ decoded ys"
  by (induction xs rule: decoded.induct) auto

subsection \<open>Closing\<close>

text \<open>
  C10. \<^verbatim>\<open>close()\<close> on a client that was never started (no server process, socket not
  connected) returns normally. It closes the socket and does nothing else: no shutdown
  message is written and no call is made on the absent process.
\<close>

theorem close_never_started:
  assumes "\<not> is_connected s" and "process s = None"
  shows "close E s = (None, s\<lparr>effects := effects s @ [SockClose], is_connected := False\<rparr>)"
  using assms by (simp add: close_def terminate_server_process_def emit_def Let_def)

theorem close_never_started_witness:
  "close demo_env (init_client :: nat client) =
     (None, init_client\<lparr>effects := [SockClose], is_connected := False\<rparr>)"
  using close_never_started [of "init_client :: nat client" demo_env]
  by (simp add: init_client_def)

text \<open>
  C3, as the code has it. \<^verbatim>\<open>close()\<close> calls no callback and leaves the mapping of
  pending callbacks as it was: the entry of a pending request stays in it.
\<close>

theorem close_keeps_callbacks:
  "callbacks (snd (close E s)) = callbacks s \<and>
   called (effects (snd (close E s))) = called (effects s)"
  by (auto simp: close_def terminate_server_process_def on_disconnected_def emit_def
                 called_append send_def Let_def
           split: option.splits prod.splits if_splits)

theorem close_keeps_callbacks_witness:
  "callbacks (snd (close demo_env pending_client)) = callbacks pending_client \<and>
   called (effects (snd (close demo_env pending_client))) = called (effects pending_client)"
  using close_keeps_callbacks [of demo_env pending_client] by simp

text \<open>
  C3, as the claim states it, fails: after \<^verbatim>\<open>close()\<close> with the request \<open>r1\<close> pending,
  the mapping is not empty.
\<close>

theorem close_pending_counterexample:
  "fst (close demo_env pending_client) = None \<and>
   callbacks (snd (close demo_env pending_client)) ''r1'' = Some 7 \<and>
   callbacks (snd (close demo_env pending_client)) \<noteq> Map.empty"
proof -
  have a: "callbacks (snd (close demo_env pending_client)) ''r1'' = Some 7"
    by (simp add: demo request_work_def send_def close_def terminate_server_process_def Let_def)
  have b: "fst (close demo_env pending_client) = None"
    by (simp add: demo request_work_def send_def close_def terminate_server_process_def Let_def)
  from a have "callbacks (snd (close demo_env pending_client)) \<noteq> Map.empty"
    by (metis option.distinct(1))
  with a b show ?thesis by simp
qed

subsection \<open>Starting\<close>

text \<open>
  C6. \<^verbatim>\<open>start\<close> with a script path that does not exist fails at once, with the
  \<^verbatim>\<open>AssertionError\<close> of the source's \<^verbatim>\<open>assert\<close> (the error the specification calls
  SpawnError or InvalidScriptError). Before that the method has only written a log
  record: no process is created or started, no port is probed, and the fields
  \<open>process\<close> and \<open>port\<close> are as they were.
\<close>

theorem start_missing_script:
  assumes "\<not> path_exists E server_script"
  shows "start E server_script interpreter args s =
           (Some AssertionError, s\<lparr>effects := effects s @ [CliLog DEBUG RunningWithPython]\<rparr>)"
  using assms by (simp add: start_def emit_def)

theorem start_missing_script_witness:
  "start demo_env ''/path/to/worker.py'' None None (init_client :: nat client) =
     (Some AssertionError, init_client\<lparr>effects := [CliLog DEBUG RunningWithPython]\<rparr>)"
  using start_missing_script
          [of demo_env "''/path/to/worker.py''" None None "init_client :: nat client"]
  by (simp add: demo_env_def init_client_def)

subsection \<open>Dispatching\<close>

text \<open>
  C9, as the code has it. A decoded message that is not a dict with the three keys
  \<^verbatim>\<open>request_id\<close>, \<^verbatim>\<open>results\<close> and \<^verbatim>\<open>status\<close>, or whose \<^verbatim>\<open>request_id\<close> can be hashed
  (a string, a number, a bool or \<^verbatim>\<open>None\<close>) and is not a key of the mapping, is ignored:
  nothing is raised and the client, every pending callback with it, is unchanged.
\<close>

theorem dispatch_unregistered:
  assumes "getitem obj ''request_id'' = None \<or> getitem obj ''results'' = None \<or>
           getitem obj ''status'' = None \<or>
           (\<exists>r. getitem obj ''request_id'' = Some r \<and> hashable r \<and>
                (case key_of r of None \<Rightarrow> True | Some k \<Rightarrow> callbacks s k = None))"
  shows "dispatch obj s = (None, s)"
  using assms by (auto simp: dispatch_def split: option.splits)

theorem dispatch_unregistered_witness:
  "dispatch (JObj [(''request_id'', JStr ''r2''), (''results'', JInt 1),
                   (''status'', JBool True)]) pending_client = (None, pending_client) \<and>
   dispatch (JStr ''shutdown'') pending_client = (None, pending_client) \<and>
   callbacks pending_client ''r1'' = Some 7"
  using dispatch_unregistered
          [of "JObj [(''request_id'', JStr ''r2''), (''results'', JInt 1),
                     (''status'', JBool True)]" pending_client]
        dispatch_unregistered [of "JStr ''shutdown''" pending_client]
        pending_client_fields
  by simp

text \<open>
  C9, as the claim states it, fails: a response whose \<^verbatim>\<open>request_id\<close> is a list is in no
  mapping, and the test \<^verbatim>\<open>request_id in self._callbacks\<close>, which stands outside the
  \<^verbatim>\<open>try\<close>, raises \<^verbatim>\<open>TypeError\<close> for it.
\<close>

theorem dispatch_unhashable_counterexample:
  "dispatch (JObj [(''request_id'', JArr []), (''results'', JInt 1), (''status'', JBool True)])
     (init_client :: nat client) = (Some TypeError, init_client)"
  by (simp add: dispatch_def)

text \<open>
  C8. A request sent with a callback registers it under the request's identifier. When
  a response with that identifier is dispatched while the entry is still there, the
  callback is called once, with the status and the results of the response, and the
  entry is removed; a second response with the same identifier calls nothing and
  changes nothing.
\<close>

theorem callback_exactly_once:
  assumes "request_work E worker_module worker_name args (Some cb) rid s = (None, s1)"
      and "callbacks t rid = callbacks s1 rid"
      and "getitem obj ''request_id'' = Some (JStr rid)"
      and "getitem obj ''results'' = Some results"
      and "getitem obj ''status'' = Some status"
  shows "callbacks s1 rid = Some cb \<and>
         dispatch obj t = (None, t\<lparr>callbacks := (callbacks t)(rid := None),
                                   effects := effects t @ [Callback cb status results]\<rparr>) \<and>
         dispatch obj (snd (dispatch obj t)) = (None, snd (dispatch obj t))"
proof -
  have 1: "callbacks s1 rid = Some cb"
    using assms(1) by (auto simp: request_work_def send_def emit_def Let_def split: if_splits)
  with assms(2) have 2: "callbacks t rid = Some cb" by simp
  have 3: "dispatch obj t = (None, t\<lparr>callbacks := (callbacks t)(rid := None),
                                   effects := effects t @ [Callback cb status results]\<rparr>)"
    using 2 assms(3-5) by (simp add: dispatch_def emit_def)
  have 4: "dispatch obj (snd (dispatch obj t)) = (None, snd (dispatch obj t))"
    using assms(3-5) by (simp add: 3) (simp add: dispatch_def)
  from 1 3 4 show ?thesis by simp
qed

theorem callback_exactly_once_witness:
  "request_work demo_env ''pyqode.core.workers'' ''echo'' JNull (Some 7) ''r1'' running_client
     = (None, pending_client) \<and>
   callbacks pending_client ''r1'' = Some 7 \<and>
   called (effects (snd (dispatch response_r1 pending_client))) = [(7, JBool True, JInt 1)] \<and>
   callbacks (snd (dispatch response_r1 pending_client)) ''r1'' = None \<and>
   called (effects (snd (dispatch response_r1 (snd (dispatch response_r1 pending_client)))))
     = [(7, JBool True, JInt 1)]"
proof -
  have g: "getitem response_r1 ''request_id'' = Some (JStr ''r1'')"
          "getitem response_r1 ''results'' = Some (JInt 1)"
          "getitem response_r1 ''status'' = Some (JBool True)"
    by (simp_all add: response_r1_def)
  note th = callback_exactly_once [OF request_work_demo refl g]
  note d1 = th [THEN conjunct2, THEN conjunct1]
  note d2 = th [THEN conjunct2, THEN conjunct2]
  show ?thesis
    using request_work_demo pending_client_fields
    by (simp add: d2) (simp add: d1 called_append)
qed

subsection \<open>Connecting under persistent refusal\<close>

lemma connects_append: "connects (xs @ ys) = connects xs + connects ys"
  by (induction xs rule: connects.induct) auto

lemma connects_rounds:
  "connects (concat (replicate n (refused_round p @ [SingleShot d]))) = n"
  by (induction n) (simp_all add: connects_append refused_round_def)

lemma refused_step_retry:
  assumes "timers s = 1" "connection_attempts s + 1 < MAX_RETRY"
  shows "on_error ConnectionRefusedError (timer_fires s) =
           (None, s\<lparr>connection_attempts := connection_attempts s + 1,
                     effects := effects s @ refused_round (port s) @ [SingleShot TIMEOUT_BEFORE_RETRY]\<rparr>)"
  using assms
  by (simp add: on_error_refused timer_fires_def connect_def emit_def single_shot_def Let_def
        refused_round_def refused_msg_def)

lemma refused_step_last:
  assumes "timers s = 1" "\<not> connection_attempts s + 1 < MAX_RETRY"
  shows "on_error ConnectionRefusedError (timer_fires s) =
           (Some RuntimeError, s\<lparr>timers := 0, connection_attempts := connection_attempts s + 1,
                     effects := effects s @ refused_round (port s)\<rparr>)"
  using assms
  by (simp add: on_error_refused timer_fires_def connect_def emit_def single_shot_def Let_def
        refused_round_def refused_msg_def)

lemma refused_loop_idle: "timers s = 0 \<Longrightarrow> refused_loop raised s = (raised, s)"
  by (simp add: refused_loop.simps)

lemma refused_loop_rounds:
  assumes "timers s = 1" "connection_attempts s + 1 + int n = MAX_RETRY"
  shows "refused_loop raised s =
           (raised @ [RuntimeError],
            s\<lparr>timers := 0, connection_attempts := MAX_RETRY,
              effects := effects s @
                concat (replicate n (refused_round (port s) @ [SingleShot TIMEOUT_BEFORE_RETRY])) @
                refused_round (port s)\<rparr>)"
  using assms
proof (induction n arbitrary: s)
  case 0
  then have last: "\<not> connection_attempts s + 1 < MAX_RETRY" by simp
  show ?case
    using 0 
    by (subst refused_loop.simps) (simp add: refused_step_last [OF "0.prems"(1) last] refused_loop_idle)
next
  case (Suc n)
  then have more: "connection_attempts s + 1 < MAX_RETRY" by simp
  let ?s' = "s\<lparr>connection_attempts := connection_attempts s + 1,
                 effects := effects s @ refused_round (port s) @ [SingleShot TIMEOUT_BEFORE_RETRY]\<rparr>"
  have "refused_loop raised s = refused_loop raised ?s'"
    using Suc.prems(1) by (subst refused_loop.simps) (simp add: refused_step_retry [OF Suc.prems(1) more])
  also have "\<dots> = (raised @ [RuntimeError],
            ?s'\<lparr>timers := 0, connection_attempts := MAX_RETRY,
              effects := effects ?s' @
                concat (replicate n (refused_round (port ?s') @ [SingleShot TIMEOUT_BEFORE_RETRY])) @
                refused_round (port ?s')\<rparr>)"
    using Suc.prems by (intro Suc.IH) simp_all
  finally show ?case by simp
qed

text \<open>
  C2. On a client that has made no attempt yet, the start of the server process arms the
  first timer. When every attempt is refused, \<^verbatim>\<open>_connect\<close> runs exactly 100 times, each
  retry 100 ms after the refusal before it; the hundredth refusal raises \<^verbatim>\<open>RuntimeError\<close>
  and arms no timer, so no attempt follows and the event loop has nothing left to run.
\<close>

theorem retry_budget:
  assumes "connection_attempts s = 0" and "timers s = 0"
  shows "refused_loop [] (on_process_started s) =
           ([RuntimeError],
            s\<lparr>connection_attempts := 100,
              effects := effects s @ [SingleShot 100] @
                concat (replicate 99 (refused_round (port s) @ [SingleShot 100])) @
                refused_round (port s)\<rparr>) \<and>
         connects (effects (snd (refused_loop [] (on_process_started s)))) =
           connects (effects s) + 100 \<and>
         timers (snd (refused_loop [] (on_process_started s))) = 0 \<and>
         refused_loop [] (snd (refused_loop [] (on_process_started s))) =
           ([], snd (refused_loop [] (on_process_started s)))"
proof -
  let ?s1 = "on_process_started s"
  have f: "timers ?s1 = 1" "connection_attempts ?s1 + 1 + int 99 = MAX_RETRY"
          "port ?s1 = port s" "effects ?s1 = effects s @ [SingleShot 100]"
    using assms
    by (simp_all add: on_process_started_def single_shot_def emit_def MAX_RETRY_def
                      TIMEOUT_BEFORE_RETRY_def)
  have run: "refused_loop [] ?s1 =
           ([RuntimeError],
            s\<lparr>connection_attempts := 100,
              effects := effects s @ [SingleShot 100] @
                concat (replicate 99 (refused_round (port s) @ [SingleShot 100])) @
                refused_round (port s)\<rparr>)"
    using assms
    by (simp add: refused_loop_rounds [OF f(1,2)] f(3,4) MAX_RETRY_def TIMEOUT_BEFORE_RETRY_def)
       (simp add: on_process_started_def single_shot_def emit_def)
  show ?thesis
    using assms
    by (simp add: run connects_append connects_rounds refused_loop_idle)
       (simp add: refused_round_def)
qed


theorem retry_budget_witness:
  "fst (refused_loop [] (on_process_started started_client)) = [RuntimeError] \<and>
   connection_attempts (snd (refused_loop [] (on_process_started started_client))) = 100 \<and>
   connects (effects (snd (refused_loop [] (on_process_started started_client)))) = 100 \<and>
   timers (snd (refused_loop [] (on_process_started started_client))) = 0"
proof -
  note th = retry_budget [of started_client, OF started_client_fields(1,2)]
  note run = th [THEN conjunct1]
  note cnt = th [THEN conjunct2, THEN conjunct1]
  note tm = th [THEN conjunct2, THEN conjunct2, THEN conjunct1]
  show ?thesis
    using cnt tm started_client_fields(4) by (simp add: run)
qed

subsection \<open>How errors leave the handlers\<close>

lemma on_error_other:
  assumes "socket_error \<noteq> ConnectionRefusedError"
  shows "\<exists>code msg. on_error socket_error s = (None, emit (CliLog ERROR (SocketError code msg)) s)"
proof (cases "map_of SOCKET_ERROR_STRINGS socket_error")
  case None
  have m: "map_of SOCKET_ERROR_STRINGS (- 1) = Some ''an unidentified error occurred.''"
    by (simp add: SOCKET_ERROR_STRINGS_def)
  have "on_error socket_error s =
          (None, emit (CliLog ERROR (SocketError (- 1) ''an unidentified error occurred.'')) s)"
    using None by (simp add: on_error_def m ConnectionRefusedError_def)
  then show ?thesis by blast
next
  case (Some msg)
  have "on_error socket_error s = (None, emit (CliLog ERROR (SocketError socket_error msg)) s)"
    using Some assms by (simp add: on_error_def)
  then show ?thesis by blast
qed

text \<open>
  C5, as the code has it. A socket error other than a refusal is logged and nothing is
  raised; a refusal below the retry budget is logged and a retry is armed; a refusal at
  or past the budget is logged and raises \<^verbatim>\<open>RuntimeError\<close> out of the slot
  \<^verbatim>\<open>_on_error\<close>. \<^verbatim>\<open>request_work\<close> without a running process or without a connection
  raises \<^verbatim>\<open>NotConnectedError\<close> at once and changes nothing.
\<close>

theorem error_propagation:
  "(socket_error \<noteq> ConnectionRefusedError \<longrightarrow>
      (\<exists>code msg. on_error socket_error s =
                     (None, emit (CliLog ERROR (SocketError code msg)) s))) \<and>
   (connection_attempts s < MAX_RETRY \<longrightarrow>
      on_error ConnectionRefusedError s =
        (None, single_shot TIMEOUT_BEFORE_RETRY
                 (emit (CliLog ERROR (SocketError 0 refused_msg)) s))) \<and>
   (MAX_RETRY \<le> connection_attempts s \<longrightarrow>
      on_error ConnectionRefusedError s =
        (Some RuntimeError, emit (CliLog ERROR (SocketError 0 refused_msg)) s)) \<and>
   (process s = None \<or> (\<exists>p. process s = Some p \<and> \<not> running p) \<or> \<not> is_connected s \<longrightarrow>
      request_work E worker_module worker_name args on_receive request_id s =
        (Some NotConnectedError, s))"
proof -
  have a: "socket_error \<noteq> ConnectionRefusedError \<longrightarrow>
      (\<exists>code msg. on_error socket_error s =
                     (None, emit (CliLog ERROR (SocketError code msg)) s))"
    using on_error_other by blast
  have b: "connection_attempts s < MAX_RETRY \<longrightarrow>
      on_error ConnectionRefusedError s =
        (None, single_shot TIMEOUT_BEFORE_RETRY
                 (emit (CliLog ERROR (SocketError 0 refused_msg)) s))"
    by (simp add: on_error_refused refused_msg_def)
  have c: "MAX_RETRY \<le> connection_attempts s \<longrightarrow>
      on_error ConnectionRefusedError s =
        (Some RuntimeError, emit (CliLog ERROR (SocketError 0 refused_msg)) s)"
    by (simp add: on_error_refused refused_msg_def)
  have d: "process s = None \<or> (\<exists>p. process s = Some p \<and> \<not> running p) \<or> \<not> is_connected s \<longrightarrow>
      request_work E worker_module worker_name args on_receive request_id s =
        (Some NotConnectedError, s)"
    by (auto simp: request_work_def)
  from a b c d show ?thesis by blast
qed

theorem error_propagation_witness:
  "on_error 1 (running_client) =
      (None, emit (CliLog ERROR (SocketError 1 ''the remote host closed the connection.'')) running_client) \<and>
   on_error ConnectionRefusedError started_client =
        (None, single_shot TIMEOUT_BEFORE_RETRY
                 (emit (CliLog ERROR (SocketError 0 refused_msg)) started_client)) \<and>
   on_error ConnectionRefusedError (started_client\<lparr>connection_attempts := 100\<rparr>) =
        (Some RuntimeError, emit (CliLog ERROR (SocketError 0 refused_msg)) (started_client\<lparr>connection_attempts := 100\<rparr>)) \<and>
   request_work demo_env ''pyqode.core.workers'' ''echo'' JNull (Some 7) ''r1'' started_client =
        (Some NotConnectedError, started_client)"
proof -
  note t1 = error_propagation [of 1 running_client, THEN conjunct1]
  note t2 = error_propagation [of 0 started_client, THEN conjunct2, THEN conjunct1]
  note t3 = error_propagation [of 0 "started_client\<lparr>connection_attempts := 100\<rparr>", THEN conjunct2, THEN conjunct2, THEN conjunct1]
  note t4 = error_propagation [of 0 started_client demo_env "''pyqode.core.workers''" "''echo''" JNull "Some 7" "''r1''",
       THEN conjunct2, THEN conjunct2, THEN conjunct2]
  have e1: "on_error 1 running_client =
      (None, emit (CliLog ERROR (SocketError 1 ''the remote host closed the connection.'')) running_client)"
    using t1 by (simp add: ConnectionRefusedError_def on_error_def SOCKET_ERROR_STRINGS_def)
  have e2: "on_error ConnectionRefusedError started_client =
        (None, single_shot TIMEOUT_BEFORE_RETRY
                 (emit (CliLog ERROR (SocketError 0 refused_msg)) started_client))"
    using t2 started_client_fields by (simp add: MAX_RETRY_def)
  have e3: "on_error ConnectionRefusedError (started_client\<lparr>connection_attempts := 100\<rparr>) =
        (Some RuntimeError, emit (CliLog ERROR (SocketError 0 refused_msg)) (started_client\<lparr>connection_attempts := 100\<rparr>))"
    using t3 by (simp add: MAX_RETRY_def)
  have e4: "request_work demo_env ''pyqode.core.workers'' ''echo'' JNull (Some 7) ''r1'' started_client =
        (Some NotConnectedError, started_client)"
    using t4 started_client_fields by simp
  from e1 e2 e3 e4 show ?thesis by simp
qed


text \<open>
  C5, as the claim states it, fails: after the hundredth attempt the refusal is raised
  as an exception out of the slot.
\<close>

theorem on_error_exhausted_counterexample:
  "on_error ConnectionRefusedError ((init_client :: nat client)\<lparr>connection_attempts := 100\<rparr>) =
     (Some RuntimeError,
      init_client\<lparr>connection_attempts := 100,
                  effects := [CliLog ERROR (SocketError 0 refused_msg)]\<rparr>)"
  by (simp add: on_error_refused MAX_RETRY_def init_client_def emit_def refused_msg_def)

subsection \<open>The output of the server process\<close>

lemma rfind_last:
  assumes "c \<notin> set b"
  shows "rfind c (a @ c # b) = int (length a)"
proof -
  have "takeWhile (\<lambda>x. x \<noteq> c) (rev b @ c # rev a) = rev b @ takeWhile (\<lambda>x. x \<noteq> c) (c # rev a)"
    using assms by (intro takeWhile_append2) auto
  then show ?thesis by (simp add: rfind_def)
qed

lemma slice_to_prefix: "slice_to (a @ ys) (int (length a)) = a"
  by (simp add: slice_to_def Let_def)

text \<open>
  A read whose text contains a newline: the lines of the text before its last newline
  are forwarded in order to the server logger, at debug level for the standard output
  and at error level for the standard error. What follows the last newline takes no
  part in the result.
\<close>

lemma output_before_last_newline:
  assumes "utf8_decode E chunk = Some (a @ [LF] @ b)" and "LF \<notin> set b"
  shows "on_process_stdout_ready E chunk = Inr (map (SrvLog DEBUG) (splitlines a)) \<and>
         on_process_stderr_ready E chunk = Inr (map (SrvLog ERROR) (splitlines a))"
  using assms
  by (simp add: on_process_stdout_ready_def on_process_stderr_ready_def rfind_last
                slice_to_prefix Let_def)

text \<open>
  C7. The class \<^verbatim>\<open>ServerProcess\<close> is documented to log everything that is written to the
  process's standard output and standard error, and the claim asks that a partial line
  be kept until its newline arrives. The handlers do neither. The process writes the
  lines \<open>x\<close> and \<open>yz\<close>, read as \<^verbatim>\<open>x\ny\<close> and then \<^verbatim>\<open>z\n\<close>: the handler forwards \<open>x\<close> and
  \<open>z\<close>, so \<open>y\<close> is lost and the end of the line \<open>yz\<close> is forwarded as a line of its own.
  The process writes \<open>ab\<close> with no newline yet: the handler forwards \<open>a\<close> as a line at once
  and \<open>b\<close> is lost. The records of the standard output are at debug level.
\<close>

theorem output_fragment_lost:
  "on_process_stdout_ready demo_env (ascii ''x'' @ [10] @ ascii ''y'') =
     Inr [SrvLog DEBUG [120]] \<and>
   on_process_stdout_ready demo_env (ascii ''z'' @ [10]) = Inr [SrvLog DEBUG [122]] \<and>
   on_process_stdout_ready demo_env (ascii ''ab'') = Inr [SrvLog DEBUG [97]] \<and>
   on_process_stderr_ready demo_env (ascii ''x'' @ [10] @ ascii ''y'') =
     Inr [SrvLog ERROR [120]]"
  by (simp add: demo on_process_stdout_ready_def on_process_stderr_ready_def rfind_def
                slice_to_def LF_def CR_def splitlines_def is_linebreak_def Let_def)

subsection \<open>Framing\<close>

text \<open>
  C1. The frame of the response \<open>r1\<close>, received whole, is decoded and its callback is
  called. The same bytes split inside the payload (after 20 bytes) or inside the header
  (after 2 bytes) decode to nothing and call nothing. The frame of the number 123,
  received whole, decodes to 123; received one byte at a time it decodes to 12.
\<close>

theorem framing_split_divergence:
  "called (effects (snd (deliver demo_env [frame_r1] pending_client))) = [(7, JBool True, JInt 1)] \<and>
   decoded (effects (snd (deliver demo_env [frame_r1] pending_client))) = [response_r1] \<and>
   decoded (effects (snd (deliver demo_env [take 20 frame_r1, drop 20 frame_r1] pending_client))) = [] \<and>
   called (effects (snd (deliver demo_env [take 20 frame_r1, drop 20 frame_r1] pending_client))) = [] \<and>
   decoded (effects (snd (deliver demo_env [take 2 frame_r1, drop 2 frame_r1] pending_client))) = [] \<and>
   decoded (effects (snd (deliver demo_env [frame_123] pending_client))) = [JInt 123] \<and>
   decoded (effects (snd (deliver demo_env (bytewise frame_123) pending_client))) = [JInt 12]"
proof -
  have a: "called (effects (snd (deliver demo_env [frame_r1] pending_client))) = [(7, JBool True, JInt 1)]"
    by (simp add: run demo)
  have b: "decoded (effects (snd (deliver demo_env [frame_r1] pending_client))) = [response_r1]"
    by (simp add: run demo)
  have c: "decoded (effects (snd (deliver demo_env [take 20 frame_r1, drop 20 frame_r1] pending_client))) = []"
    by (simp add: run demo)
  have d: "called (effects (snd (deliver demo_env [take 20 frame_r1, drop 20 frame_r1] pending_client))) = []"
    by (simp add: run demo)
  have e: "decoded (effects (snd (deliver demo_env [take 2 frame_r1, drop 2 frame_r1] pending_client))) = []"
    by (simp add: run demo)
  have f: "decoded (effects (snd (deliver demo_env [frame_123] pending_client))) = [JInt 123]"
    by (simp add: run demo)
  have g: "decoded (effects (snd (deliver demo_env (bytewise frame_123) pending_client))) = [JInt 12]"
    by (simp add: run demo)
  from a b c d e f g show ?thesis by simp
qed

text \<open>Two frames that arrive whole in one read are both decoded, in order.\<close>

lemma two_frames_one_read:
  "decoded (effects (snd (deliver demo_env [frame_123 @ frame_r1] pending_client))) = [JInt 123, response_r1] \<and>
   called (effects (snd (deliver demo_env [frame_123 @ frame_r1] pending_client))) = [(7, JBool True, JInt 1)]"
  by (simp add: run demo)

lemma stuck_step:
  assumes "stuck E t" "read_step E t = (r, t')"
  shows "stuck E t' \<and> effects t' = effects t \<and> inbuf t' = inbuf t"
  using assms
  by (auto simp: stuck_def read_step_def read_payload_def sock_read_def Let_def
           split: if_splits option.splits)

lemma stuck_on_ready_read:
  "stuck E t \<Longrightarrow> on_ready_read E t = (r, t') \<Longrightarrow> stuck E t' \<and> effects t' = effects t"
proof (induction E t arbitrary: r t' rule: on_ready_read.induct)
  case (1 E s)
  show ?case
  proof (cases "inbuf s = []")
    case True
    with 1 show ?thesis by (simp add: on_ready_read_empty)
  next
    case False
    obtain q s1 where st: "read_step E s = (q, s1)" by (cases "read_step E s")
    from stuck_step [OF "1.prems"(1) st] have s1: "stuck E s1" "effects s1 = effects s" by simp_all
    show ?thesis
    proof (cases q)
      case None
      with False st "1.prems"(2) have "on_ready_read E s1 = (r, t')"
        by (simp add: on_ready_read_more)
      from "1.IH" [OF False st [unfolded None, symmetric] refl s1(1) this] s1(2)
      show ?thesis by simp
    next
      case (Some e)
      with False st "1.prems"(2) have "t' = s1" by (simp add: on_ready_read_more)
      with s1 show ?thesis by simp
    qed
  qed
qed

lemma stuck_deliver:
  "stuck E t \<Longrightarrow> effects (snd (deliver E chunks t)) = effects t \<and> stuck E (snd (deliver E chunks t))"
proof (induction chunks arbitrary: t)
  case Nil
  then show ?case by simp
next
  case (Cons chunk chunks)
  obtain r t1 where d: "data_arrives E chunk t = (r, t1)" by (cases "data_arrives E chunk t")
  have "stuck E (t\<lparr>inbuf := inbuf t @ chunk\<rparr>)" using Cons.prems by (simp add: stuck_def)
  from stuck_on_ready_read [OF this d [unfolded data_arrives_def]]
  have t1: "stuck E t1" "effects t1 = effects t" by simp_all
  from Cons.IH [OF t1(1)] t1(2) d show ?case
    by (cases "deliver E chunks t1") simp
qed

lemma stuck_raises:
  assumes "stuck E t" and "inbuf t \<noteq> []"
  shows "\<exists>e. fst (on_ready_read E t) = Some e"
proof (cases "to_read t < 0")
  case True
  then have "read_step E t = (Some ReadValueError, t)"
    using assms(1) by (simp add: stuck_def read_step_def read_payload_def sock_read_def)
  then show ?thesis using assms(2) by (simp add: on_ready_read_more)
next
  case False
  with assms(1) have z: "header_complete t" "to_read t = 0" "json_loads E (data_buf t) = None"
    by (auto simp: stuck_def)
  show ?thesis
  proof (cases "data_buf t = []")
    case True
    then have "read_step E t = (Some DecodeValueError, t)"
      using z by (simp add: read_step_def read_payload_def sock_read_def Let_def)
    then show ?thesis using assms(2) by (simp add: on_ready_read_more)
  next
    case False
    let ?t2 = "t\<lparr>to_read := - int (length (data_buf t))\<rparr>"
    have 1: "read_step E t = (None, ?t2)"
      using z False by (simp add: read_step_def read_payload_def sock_read_def Let_def)
    have 2: "read_step E ?t2 = (Some ReadValueError, ?t2)"
      using z False by (simp add: read_step_def read_payload_def sock_read_def)
    have "on_ready_read E t = on_ready_read E ?t2"
      using assms(2) 1 by (simp add: on_ready_read_more)
    also have "\<dots> = (Some ReadValueError, ?t2)"
      using assms(2) 2 by (simp add: on_ready_read_more)
    finally show ?thesis by simp
  qed
qed

text \<open>
  C4, as the code has it. A frame arrives whole and its payload does not decode. When
  the payload or any byte behind it is in the socket, \<^verbatim>\<open>_on_ready_read\<close> raises the
  decoder's \<^verbatim>\<open>ValueError\<close> in this run; a frame of length zero that arrives alone ends
  the loop after its header, and the same error is raised by the next run that finds
  bytes. Either way the slot is left in payload mode with \<open>to_read = 0\<close> and the payload
  in \<open>data_buf\<close>, the bytes behind the frame stay unread, and nothing is logged. From
  then on no delivery of bytes has any effect and every run of the slot that finds
  bytes raises again: no later frame is decoded and no callback is called.
\<close>

theorem malformed_frame_raises:
  assumes "\<not> header_complete s" and "header_buf s = []" and "data_buf s = []"
      and "inbuf s = header @ payload @ rest" and "length header = 4"
      and "unpack_I (little_endian E) header = int (length payload)"
      and "json_loads E payload = None"
  shows "on_ready_read E s =
           (if payload @ rest = [] then None else Some DecodeValueError,
            s\<lparr>header_complete := True, to_read := 0, data_buf := payload, inbuf := rest\<rparr>) \<and>
         (payload @ rest = [] \<longrightarrow>
            (\<forall>chunk. chunk \<noteq> [] \<longrightarrow>
               fst (data_arrives E chunk (snd (on_ready_read E s))) = Some DecodeValueError)) \<and>
         (\<forall>chunks. effects (snd (deliver E chunks (snd (on_ready_read E s)))) = effects s) \<and>
         (\<forall>chunks chunk. chunk \<noteq> [] \<longrightarrow>
            (\<exists>e. fst (data_arrives E chunk
                        (snd (deliver E chunks (snd (on_ready_read E s))))) = Some e))"
proof -
  let ?s1 = "s\<lparr>inbuf := payload @ rest, header_complete := True,
               to_read := int (length payload)\<rparr>"
  let ?t = "s\<lparr>header_complete := True, to_read := 0, data_buf := payload, inbuf := rest\<rparr>"
  have ne: "inbuf s \<noteq> []" using assms(4,5) by auto
  have h: "read_step E s = (None, ?s1)"
    using assms by (simp add: read_step_def read_header_def sock_read_def Let_def)
  have first: "on_ready_read E s = on_ready_read E ?s1"
    using ne h by (simp add: on_ready_read_more)
  have run: "on_ready_read E s =
               (if payload @ rest = [] then None else Some DecodeValueError, ?t)"
  proof (cases "payload @ rest = []")
    case True
    then have "on_ready_read E ?s1 = (None, ?s1)" by (simp add: on_ready_read_empty)
    moreover have "?s1 = ?t" using True assms(3) by simp
    ultimately show ?thesis using first True by simp
  next
    case False
    have "read_step E ?s1 = (Some DecodeValueError, ?t)"
      using assms by (simp add: read_step_def read_payload_def sock_read_def Let_def)
    then have "on_ready_read E ?s1 = (Some DecodeValueError, ?t)"
      using False by (simp add: on_ready_read_more)
    then show ?thesis using first False by simp
  qed
  have st: "stuck E ?t" using assms(7) by (simp add: stuck_def)
  have later: "payload @ rest = [] \<longrightarrow>
       (\<forall>chunk. chunk \<noteq> [] \<longrightarrow> fst (data_arrives E chunk ?t) = Some DecodeValueError)"
  proof (intro impI allI)
    fix chunk :: "byte list"
    assume e: "payload @ rest = []" and c: "chunk \<noteq> []"
    let ?u = "?t\<lparr>inbuf := inbuf ?t @ chunk\<rparr>"
    have "read_step E ?u = (Some DecodeValueError, ?u)"
      using e assms(7) by (simp add: read_step_def read_payload_def sock_read_def Let_def)
    then show "fst (data_arrives E chunk ?t) = Some DecodeValueError"
      using c by (simp add: data_arrives_def on_ready_read_more)
  qed
  have quiet: "\<forall>chunks. effects (snd (deliver E chunks ?t)) = effects s"
    using stuck_deliver [OF st] by simp
  have again: "\<forall>chunks chunk. chunk \<noteq> [] \<longrightarrow>
       (\<exists>e. fst (data_arrives E chunk (snd (deliver E chunks ?t))) = Some e)"
  proof (intro impI allI)
    fix chunks :: "byte list list" and chunk :: "byte list"
    assume c: "chunk \<noteq> []"
    let ?u = "snd (deliver E chunks ?t)"
    have "stuck E ?u" using stuck_deliver [OF st] by simp
    then have "stuck E (?u\<lparr>inbuf := inbuf ?u @ chunk\<rparr>)" by (simp add: stuck_def)
    from stuck_raises [OF this] c
    show "\<exists>e. fst (data_arrives E chunk ?u) = Some e" by (simp add: data_arrives_def)
  qed
  from later quiet again show ?thesis by (simp add: run)
qed

theorem malformed_frame_raises_witness:
  "on_ready_read demo_env (pending_client\<lparr>inbuf := frame_bad @ frame_r1\<rparr>) =
     (Some DecodeValueError,
      pending_client\<lparr>header_complete := True, to_read := 0, data_buf := ascii ''[1'',
                     inbuf := frame_r1\<rparr>) \<and>
   effects (snd (deliver demo_env [frame_r1]
       (snd (on_ready_read demo_env (pending_client\<lparr>inbuf := frame_bad @ frame_r1\<rparr>))))) =
     effects pending_client \<and>
   on_ready_read demo_env (pending_client\<lparr>inbuf := [0, 0, 0, 0]\<rparr>) =
     (None,
      pending_client\<lparr>header_complete := True, to_read := 0, data_buf := [], inbuf := []\<rparr>) \<and>
   fst (data_arrives demo_env frame_r1
          (snd (on_ready_read demo_env (pending_client\<lparr>inbuf := [0, 0, 0, 0]\<rparr>)))) =
     Some DecodeValueError"
proof -
  let ?s = "pending_client\<lparr>inbuf := frame_bad @ frame_r1\<rparr>"
  let ?z = "pending_client\<lparr>inbuf := [0, 0, 0, 0]\<rparr>"
  have f: "\<not> header_complete ?s" "header_buf ?s = []" "data_buf ?s = []"
       "inbuf ?s = [2, 0, 0, 0] @ ascii ''[1'' @ frame_r1" "length [2, 0, 0, 0 :: byte] = 4"
       "unpack_I (little_endian demo_env) [2, 0, 0, 0] = int (length (ascii ''[1''))"
       "json_loads demo_env (ascii ''[1'') = None"
    by (simp_all add: demo request_work_def send_def Let_def frame_bad_def frame_r1_def
                      unpack_I_def)
  have g: "\<not> header_complete ?z" "header_buf ?z = []" "data_buf ?z = []"
       "inbuf ?z = [0, 0, 0, 0] @ [] @ []" "length [0, 0, 0, 0 :: byte] = 4"
       "unpack_I (little_endian demo_env) [0, 0, 0, 0] = int (length ([] :: byte list))"
       "json_loads demo_env [] = None"
    by (simp_all add: demo request_work_def send_def Let_def unpack_I_def)
  have ne: "ascii ''[1'' @ frame_r1 \<noteq> []" "frame_r1 \<noteq> []"
    by (simp_all add: frame_r1_def)
  note th = malformed_frame_raises [OF f]
  note tz = malformed_frame_raises [OF g]
  have a: "on_ready_read demo_env ?s =
     (Some DecodeValueError,
      pending_client\<lparr>header_complete := True, to_read := 0, data_buf := ascii ''[1'',
                     inbuf := frame_r1\<rparr>)"
    using th [THEN conjunct1] ne(1) by simp
  note b = th [THEN conjunct2, THEN conjunct2, THEN conjunct1, rule_format, of "[frame_r1]"]
  have c: "on_ready_read demo_env ?z =
     (None,
      pending_client\<lparr>header_complete := True, to_read := 0, data_buf := [], inbuf := []\<rparr>)"
    using tz [THEN conjunct1] by simp
  have d: "fst (data_arrives demo_env frame_r1 (snd (on_ready_read demo_env ?z))) =
     Some DecodeValueError"
    using tz [THEN conjunct2, THEN conjunct1] ne(2) by simp
  from a b c d show ?thesis by simp
qed

text \<open>
  C4, as the claim states it, fails: a malformed frame and then, twice, the well-formed
  response to the pending request \<open>r1\<close>. Both runs of the slot raise, no message is
  decoded and the callback of \<open>r1\<close> is never called.
\<close>

theorem malformed_then_wellformed_counterexample:
  "fst (deliver demo_env [frame_bad @ frame_r1, frame_r1] pending_client) =
      [Some DecodeValueError, Some ReadValueError] \<and>
   decoded (effects (snd (deliver demo_env [frame_bad @ frame_r1, frame_r1] pending_client))) = [] \<and>
   called (effects (snd (deliver demo_env [frame_bad @ frame_r1, frame_r1] pending_client))) = [] \<and>
   callbacks (snd (deliver demo_env [frame_bad @ frame_r1, frame_r1] pending_client)) ''r1'' = Some 7"
  by (simp add: run demo)

end
